theory Spec2Isabelle
  imports Main
begin

section \<open>Results at the edge of the model\<close>

text \<open>
  Some functions of the Go libraries are modelled on a part of their inputs only.  On an
  input that the model does not cover such a function answers \<open>NotModelled\<close>, which is
  not an error of the program but the edge of the model; \<open>Returns\<close> carries a result.
\<close>

datatype 'a outcome = NotModelled | Returns 'a

section \<open>The command line entry point\<close>

text \<open>
  Go strings are byte sequences; they are modelled as \<open>string\<close> (a list of 8-bit
  characters).  The functions of \<open>main\<close> are called for their effect on the terminal and
  on the server; the model records which of them ran, in order, in a trace that is passed
  through every call and returned with the function's \<open>int\<close> result.
\<close>

definition ExitStatusOK :: int where
  "ExitStatusOK = 0"

definition ExitStatusServerError :: int where
  "ExitStatusServerError = 1"

text \<open>
  The command section of \<open>helpMessageTemplate\<close>, line by line as written in the source
  (the lines after ``The commands are:'').
\<close>

definition helpMessageTemplate_commands :: "string list" where
  "helpMessageTemplate_commands =
     [''    <EMPTY>             starts aggregator'',
      ''    start-service       starts aggregator'',
      ''    help                prints help'',
      ''    print-help          prints help'',
      ''    print-config        prints current configuration set by files & env variables'',
      ''    print-env           prints env variables'',
      ''    print-version-info  prints version info'']"

text \<open>The command a help line advertises: its first blank-separated word.\<close>

definition advertised_command :: "string \<Rightarrow> string" where
  "advertised_command line =
     takeWhile (\<lambda>c. c \<noteq> CHR '' '') (dropWhile (\<lambda>c. c = CHR '' '') line)"

definition advertised_commands :: "string list" where
  "advertised_commands = map advertised_command helpMessageTemplate_commands"

datatype action = StartServer | PrintVersionInfo | PrintHelp | PrintConfig | PrintEnv

text \<open>
  What the functions called by \<open>handleCommand\<close> find in their environment:
  whether \<open>serverInstance.Start()\<close> returns without an error, and whether
  \<open>json.MarshalIndent\<close> of the configuration succeeds.
\<close>

record environment =
  server_start_ok :: bool
  marshal_ok :: bool

type_synonym trace = "action list"

definition printHelp :: "trace \<Rightarrow> int \<times> trace" where
  "printHelp tr = (ExitStatusOK, tr @ [PrintHelp])"

definition printConfig :: "environment \<Rightarrow> trace \<Rightarrow> int \<times> trace" where
  "printConfig env tr =
     (if \<not> marshal_ok env then (1, tr @ [PrintConfig])
      else (ExitStatusOK, tr @ [PrintConfig]))"

definition printEnv :: "trace \<Rightarrow> int \<times> trace" where
  "printEnv tr = (ExitStatusOK, tr @ [PrintEnv])"

text \<open>
  Modelled from the spec: \<open>printVersionInfo\<close> is declared in another file of package
  \<open>main\<close> that is not among the sources.  It returns nothing; the spec says it prints
  the version, which the model records as the action \<open>PrintVersionInfo\<close>.
\<close>

definition printVersionInfo :: "trace \<Rightarrow> trace" where
  "printVersionInfo tr = tr @ [PrintVersionInfo]"

definition startServer :: "environment \<Rightarrow> trace \<Rightarrow> int \<times> trace" where
  "startServer env tr =
     (if \<not> server_start_ok env then (ExitStatusServerError, tr @ [StartServer])
      else (ExitStatusOK, tr @ [StartServer]))"

text \<open>
  The \<open>switch\<close> of \<open>handleCommand\<close>.  Only \<open>startServer\<close>'s result is returned; the
  results of \<open>printHelp\<close>, \<open>printConfig\<close> and \<open>printEnv\<close> are dropped by the source.
\<close>

definition handleCommand :: "environment \<Rightarrow> string \<Rightarrow> trace \<Rightarrow> int \<times> trace" where
  "handleCommand env command tr =
     (if command = ''start-service'' then startServer env tr
      else if command = ''print-version'' then (ExitStatusOK, printVersionInfo tr)
      else if command = ''print-help'' then (ExitStatusOK, snd (printHelp tr))
      else if command = ''print-config'' then (ExitStatusOK, snd (printConfig env tr))
      else if command = ''print-env'' then (ExitStatusOK, snd (printEnv tr))
      else (ExitStatusOK, tr))"

text \<open>
  \<open>strings.TrimSpace\<close> and \<open>strings.ToLower\<close>.  A Go string is a sequence of bytes,
  read by both functions as UTF-8.  On a string of ASCII bytes only, \<open>TrimSpace\<close> removes
  the leading and trailing bytes among tab, line feed, vertical tab, form feed, carriage
  return and space, and \<open>ToLower\<close> maps \<open>A\<close>..\<open>Z\<close> to \<open>a\<close>..\<open>z\<close>.  On any other string
  Go's functions also trim Unicode white space such as U+00A0 and lower-case every
  Unicode letter; this needs the Unicode tables and is outside the model, so both
  functions answer \<open>NotModelled\<close> there.
\<close>

definition is_ascii :: "string \<Rightarrow> bool" where
  "is_ascii s = list_all (\<lambda>c. (of_char c :: nat) < 128) s"

definition isSpace :: "char \<Rightarrow> bool" where
  "isSpace c = (of_char c \<in> {9, 10, 11, 12, 13, 32 :: nat})"

definition trimSpaceASCII :: "string \<Rightarrow> string" where
  "trimSpaceASCII s = rev (dropWhile isSpace (rev (dropWhile isSpace s)))"

definition TrimSpace :: "string \<Rightarrow> string outcome" where
  "TrimSpace s = (if is_ascii s then Returns (trimSpaceASCII s) else NotModelled)"

definition toLower :: "char \<Rightarrow> char" where
  "toLower c =
     (if 65 \<le> (of_char c :: nat) \<and> (of_char c :: nat) \<le> 90
      then char_of (of_char c + 32 :: nat) else c)"

definition toLowerASCII :: "string \<Rightarrow> string" where
  "toLowerASCII s = map toLower s"

definition ToLower :: "string \<Rightarrow> string outcome" where
  "ToLower s = (if is_ascii s then Returns (toLowerASCII s) else NotModelled)"

text \<open>
  One run of the program.  \<open>load_error\<close>: \<open>conf.LoadConfiguration\<close> returned an error.
  \<open>flags_ok\<close>: \<open>flag.Parse\<close> accepted the command line (the \<open>flag\<close> package otherwise
  exits with status 2).  \<open>showHelp\<close>, \<open>showVersion\<close>: the two boolean flags.
  \<open>args\<close>: \<open>flag.Args()\<close>, the positional arguments.
\<close>

record invocation =
  load_error :: bool
  flags_ok :: bool
  showHelp :: bool
  showVersion :: bool
  args :: "string list"

text \<open>How the process ends: \<open>os.Exit\<close> with a status, or an unrecovered \<open>panic\<close>.\<close>

datatype ending = Exit int | Panic

text \<open>The status the operating system sees; the Go runtime ends a panicking process with 2.\<close>

fun exit_code :: "ending \<Rightarrow> int" where
  "exit_code (Exit n) = n"
| "exit_code Panic = 2"

text \<open>
  The command \<open>main\<close> hands to \<open>handleCommand\<close>:
  \<open>strings.ToLower(strings.TrimSpace(args[0]))\<close> when there is a positional argument,
  \<open>start-service\<close> otherwise.
\<close>

definition selected_command :: "string list \<Rightarrow> string outcome" where
  "selected_command as =
     (if length as \<ge> 1
      then (case TrimSpace (as ! 0) of
              NotModelled \<Rightarrow> NotModelled
            | Returns trimmed \<Rightarrow> ToLower trimmed)
      else Returns ''start-service'')"

definition main :: "environment \<Rightarrow> invocation \<Rightarrow> (ending \<times> trace) outcome" where
  "main env run =
     (if load_error run then Returns (Panic, [])
      else if \<not> flags_ok run then Returns (Exit 2, [])
      else if showHelp run then Returns (Exit ExitStatusOK, snd (printHelp []))
      else if showVersion run then Returns (Exit ExitStatusOK, printVersionInfo [])
      else (case selected_command (args run) of
              NotModelled \<Rightarrow> NotModelled
            | Returns command \<Rightarrow>
                (let (st, tr) = handleCommand env command [] in Returns (Exit st, tr))))"

text \<open>
  The runs in which \<open>main\<close> gets as far as the positional argument: the configuration
  loaded, the flags parsed, and neither \<open>--help\<close> nor \<open>--version\<close> was given.
\<close>

definition reaches_dispatch :: "invocation \<Rightarrow> bool" where
  "reaches_dispatch run =
     (\<not> load_error run \<and> flags_ok run \<and> \<not> showHelp run \<and> \<not> showVersion run)"

section \<open>The URL template builder\<close>

text \<open>
  \<open>MakeURLToEndpoint\<close> compiles a regular expression (an opening brace, one or more
  characters of the class \<open>[a-zA-Z_0-9]\<close>, a closing brace), replaces every match in the
  endpoint template by \<open>%v\<close> and hands the result to \<open>fmt.Sprintf\<close> together with the
  arguments.
\<close>

text \<open>The character class \<open>[a-zA-Z_0-9]\<close>.\<close>

definition is_word :: "char \<Rightarrow> bool" where
  "is_word c = (c \<in> set ''abcdefghijklmnopqrstuvwxyzABCDEFGHIJKLMNOPQRSTUVWXYZ_0123456789'')"

text \<open>
  A match of the expression at the start of a string: an opening brace, the longest run
  of class characters, which must not be empty, and a closing brace.  The closing brace is
  not in the class, so the greedy run is the only candidate.  The result is the name
  between the braces and the text after the match.
\<close>

definition re_match :: "string \<Rightarrow> (string \<times> string) option" where
  "re_match s =
     (case s of
        [] \<Rightarrow> None
      | c # cs \<Rightarrow>
          if c \<noteq> CHR ''{'' then None
          else (let name = takeWhile is_word cs; rest = dropWhile is_word cs
                in if name = [] then None
                   else (case rest of
                           [] \<Rightarrow> None
                         | d # rest' \<Rightarrow> if d = CHR ''}'' then Some (name, rest') else None)))"

text \<open>
  The matches of the expression in a string, found as the regexp package finds them: from
  left to right, the next search starting where the last match ended.  A template is cut
  into its placeholders (\<open>Hole\<close>, with the name) and the characters between them
  (\<open>Lit\<close>).
\<close>

datatype piece = Lit char | Hole string

function pieces :: "string \<Rightarrow> piece list" where
  "pieces [] = []"
| "pieces (c # cs) =
     (case re_match (c # cs) of
        Some (name, rest) \<Rightarrow> Hole name # pieces rest
      | None \<Rightarrow> Lit c # pieces cs)"
  by pat_completeness auto
termination
proof (relation "measure length")
  fix c :: char and cs :: string and x2 :: "string \<times> string" and name rest :: string
  assume "re_match (c # cs) = Some x2" and "(name, rest) = x2"
  then obtain d where "dropWhile is_word cs = d # rest"
    by (auto simp: re_match_def Let_def split: if_splits list.splits)
  moreover have "length (dropWhile is_word cs) \<le> length cs"
    by (rule length_dropWhile_le)
  ultimately show "(rest, c # cs) \<in> measure length"
    by simp
qed simp_all

fun expand :: "string \<Rightarrow> piece \<Rightarrow> string" where
  "expand repl (Lit c) = [c]"
| "expand repl (Hole name) = repl"

text \<open>
  \<open>re.ReplaceAllString(src, repl)\<close> for this expression and a replacement without \<open>$\<close>:
  every match becomes \<open>repl\<close>, everything else is copied.
\<close>

definition ReplaceAllString :: "string \<Rightarrow> string \<Rightarrow> string" where
  "ReplaceAllString src repl = concat (map (expand repl) (pieces src))"

text \<open>
  An argument of type \<open>interface{}\<close>, as far as \<open>Sprintf\<close> looks at it here: \<open>nil\<close>, or a
  value given by the name of its dynamic type and by its default (\<open>%v\<close>) text.
\<close>

datatype go_value = GoNil | GoVal string string

fun fmt_v :: "go_value \<Rightarrow> string" where
  "fmt_v GoNil = ''<nil>''"
| "fmt_v (GoVal ty txt) = txt"

text \<open>One surplus argument inside \<open>%!(EXTRA ...)\<close>: \<open>type=value\<close>, or \<open><nil>\<close>.\<close>

fun fmt_extra :: "go_value \<Rightarrow> string" where
  "fmt_extra GoNil = ''<nil>''"
| "fmt_extra (GoVal ty txt) = ty @ ''='' @ txt"

text \<open>
  \<open>Sprintf\<close> always returns a string.  The model covers the formats whose verbs are
  \<open>%v\<close> and \<open>%%\<close> (and a lone \<open>%\<close> at the end); for a format with any other verb, flag,
  width or index it says \<open>NotModelled\<close>, which is not an error of the program but the
  edge of the model.
\<close>

fun emit :: "string \<Rightarrow> (string \<times> go_value list) outcome \<Rightarrow> (string \<times> go_value list) outcome"
  where
  "emit s NotModelled = NotModelled"
| "emit s (Returns (out, rest)) = Returns (s @ out, rest)"

text \<open>
  The formatting loop: the output and the arguments not yet used.  \<open>%v\<close> prints the next
  argument, or \<open>%!v(MISSING)\<close> when none is left; \<open>%%\<close> prints a percent sign and uses
  no argument; a percent sign that ends the format prints \<open>%!(NOVERB)\<close>.
\<close>

fun doPrintf :: "string \<Rightarrow> go_value list \<Rightarrow> (string \<times> go_value list) outcome" where
  "doPrintf [] a = Returns ([], a)"
| "doPrintf (c # fmt) a =
     (if c \<noteq> CHR ''%'' then emit [c] (doPrintf fmt a)
      else (case fmt of
              [] \<Rightarrow> Returns (''%!(NOVERB)'', a)
            | verb # fmt' \<Rightarrow>
                if verb = CHR ''%'' then emit ''%'' (doPrintf fmt' a)
                else if verb = CHR ''v'' then
                  (case a of
                     [] \<Rightarrow> emit ''%!v(MISSING)'' (doPrintf fmt' [])
                   | arg # a' \<Rightarrow> emit (fmt_v arg) (doPrintf fmt' a'))
                else NotModelled))"

fun join :: "string \<Rightarrow> string list \<Rightarrow> string" where
  "join sep [] = []"
| "join sep [x] = x"
| "join sep (x # y # ys) = x @ sep @ join sep (y # ys)"

text \<open>What \<open>Sprintf\<close> appends when arguments are left over.\<close>

definition extraString :: "go_value list \<Rightarrow> string" where
  "extraString rest = ''%!(EXTRA '' @ join '', '' (map fmt_extra rest) @ '')''"

definition Sprintf :: "string \<Rightarrow> go_value list \<Rightarrow> string outcome" where
  "Sprintf format a =
     (case doPrintf format a of
        NotModelled \<Rightarrow> NotModelled
      | Returns (out, rest) \<Rightarrow>
          if rest = [] then Returns out else Returns (out @ extraString rest))"

definition MakeURLToEndpoint :: "string \<Rightarrow> string \<Rightarrow> go_value list \<Rightarrow> string outcome" where
  "MakeURLToEndpoint apiPrefix endpoint a =
     (case Sprintf (ReplaceAllString endpoint ''%v'') a of
        NotModelled \<Rightarrow> NotModelled
      | Returns s \<Rightarrow> Returns (apiPrefix @ s))"

subsection \<open>The builder as the specification words it\<close>

text \<open>The number of placeholders of a template, and its characters outside placeholders.\<close>

fun holes :: "piece list \<Rightarrow> nat" where
  "holes [] = 0"
| "holes (Lit c # ps) = holes ps"
| "holes (Hole name # ps) = Suc (holes ps)"

fun lits :: "piece list \<Rightarrow> string" where
  "lits [] = []"
| "lits (Lit c # ps) = c # lits ps"
| "lits (Hole name # ps) = lits ps"

definition count_placeholders :: "string \<Rightarrow> nat" where
  "count_placeholders template = holes (pieces template)"

text \<open>
  The specification's contract: every placeholder, scanned from left to right, is replaced
  by the positionally corresponding value (the first placeholder by the first value, and
  so on); a placeholder for which no value is left stays as it is.
\<close>

fun substitute :: "piece list \<Rightarrow> string list \<Rightarrow> string" where
  "substitute [] vs = []"
| "substitute (Lit c # ps) vs = c # substitute ps vs"
| "substitute (Hole name # ps) (v # vs) = v @ substitute ps vs"
| "substitute (Hole name # ps) [] = CHR ''{'' # name @ CHR ''}'' # substitute ps []"

text \<open>
  What \<open>Sprintf\<close> has to show for \<open>n\<close> verbs \<open>%v\<close> and the arguments \<open>a\<close>: the texts of
  the arguments, then \<open>%!v(MISSING)\<close> for every verb without an argument; and what it
  appends for the arguments beyond the \<open>n\<close>-th.
\<close>

definition verb_values :: "nat \<Rightarrow> go_value list \<Rightarrow> string list" where
  "verb_values n a = map fmt_v a @ replicate (n - length a) ''%!v(MISSING)''"

definition surplus :: "nat \<Rightarrow> go_value list \<Rightarrow> string" where
  "surplus n a = (if drop n a = [] then [] else extraString (drop n a))"

text \<open>The content of a brace group that the expression accepts as a placeholder.\<close>

definition is_placeholder_name :: "string \<Rightarrow> bool" where
  "is_placeholder_name body = (body \<noteq> [] \<and> list_all is_word body)"

section \<open>The route table\<close>

text \<open>The endpoint templates, relative to the API prefix.\<close>

definition MainEndpoint :: string where
  "MainEndpoint = ''''"

definition DeleteOrganizationsEndpoint :: string where
  "DeleteOrganizationsEndpoint = ''organizations/{organizations}''"

definition DeleteClustersEndpoint :: string where
  "DeleteClustersEndpoint = ''clusters/{clusters}''"

definition OrganizationsEndpoint :: string where
  "OrganizationsEndpoint = ''organizations''"

definition ReportEndpoint :: string where
  "ReportEndpoint = ''report/{organization}/{cluster}''"

definition LikeRuleEndpoint :: string where
  "LikeRuleEndpoint = ''clusters/{cluster}/rules/{rule_id}/like''"

definition DislikeRuleEndpoint :: string where
  "DislikeRuleEndpoint = ''clusters/{cluster}/rules/{rule_id}/dislike''"

definition ResetVoteOnRuleEndpoint :: string where
  "ResetVoteOnRuleEndpoint = ''clusters/{cluster}/rules/{rule_id}/reset_vote''"

definition GetVoteOnRuleEndpoint :: string where
  "GetVoteOnRuleEndpoint = ''clusters/{cluster}/rules/{rule_id}/get_vote''"

definition RuleEndpoint :: string where
  "RuleEndpoint = ''rules/{rule_id}''"

definition RuleErrorKeyEndpoint :: string where
  "RuleErrorKeyEndpoint = ''rules/{rule_id}/error_keys/{error_key}''"

definition RuleGroupsEndpoint :: string where
  "RuleGroupsEndpoint = ''groups''"

definition ClustersForOrganizationEndpoint :: string where
  "ClustersForOrganizationEndpoint = ''organizations/{organization}/clusters''"

definition DisableRuleForClusterEndpoint :: string where
  "DisableRuleForClusterEndpoint = ''clusters/{cluster}/rules/{rule_id}/disable''"

definition EnableRuleForClusterEndpoint :: string where
  "EnableRuleForClusterEndpoint = ''clusters/{cluster}/rules/{rule_id}/enable''"

definition MetricsEndpoint :: string where
  "MetricsEndpoint = ''metrics''"

text \<open>The method names of \<open>net/http\<close>.\<close>

definition MethodGet :: string where
  "MethodGet = ''GET''"

definition MethodPost :: string where
  "MethodPost = ''POST''"

definition MethodPut :: string where
  "MethodPut = ''PUT''"

definition MethodDelete :: string where
  "MethodDelete = ''DELETE''"

definition MethodOptions :: string where
  "MethodOptions = ''OPTIONS''"

text \<open>
  The server and its configuration, with the fields that the two functions read.  The
  struct types are declared in files of package \<open>server\<close> that are not among the sources;
  the field names are the ones the functions use.
\<close>

record Configuration =
  APIPrefix :: string
  APISpecFile :: string
  Debug :: bool

record ServicesConfiguration =
  AggregatorBaseEndpoint :: string
  ContentBaseEndpoint :: string

record HTTPServer =
  Config :: Configuration
  ServicesConfig :: ServicesConfiguration

text \<open>
  The handlers that get registered: \<open>server.mainEndpoint\<close>, the closure
  \<open>server.proxyTo(base)\<close> with its base endpoint, \<open>promhttp.Handler()\<close>,
  \<open>server.serveAPISpecFile\<close> and \<open>http.DefaultServeMux\<close>.
\<close>

datatype handler = MainEndpointHandler | ProxyTo string | MetricsHandler | ServeAPISpecFile
  | DefaultServeMux

subsection \<open>Registering a route\<close>

text \<open>
  A route of the router (\<open>mux.Router\<close> of \<open>gorilla/mux\<close>): its path matcher (a full path
  template, or a path prefix), its methods (none: every method) and its handler.  The
  router keeps one entry for every registration, in the order of registration.  A
  registration whose template the library rejects leaves an entry too: the route keeps
  the error, has no matcher, no methods and no handler, and never matches a request;
  this is the entry \<open>Errored\<close>.  No registration returns an error to its caller or looks
  at the routes already there.
\<close>

datatype matcher = Path string | PathPrefix string

record route =
  route_path :: matcher
  route_methods :: "string list"
  route_handler :: handler

datatype entry = Registered route | Errored

type_synonym router = "entry list"

text \<open>
  The library's scan of a template for its variables (\<open>braceIndices\<close>): braces are
  counted, a variable is a top-level brace group, and the template is rejected
  (\<open>None\<close>) when a closing brace has no opening one or a group is left open at the end.
  The result is the template cut into its literal characters and the contents of its
  groups.
\<close>

fun braceScan :: "nat \<Rightarrow> string \<Rightarrow> string \<Rightarrow> piece list option" where
  "braceScan level grp [] = (if level = 0 then Some [] else None)"
| "braceScan level grp (c # cs) =
     (if c = CHR ''{'' then
        (if level = 0 then braceScan 1 [] cs else braceScan (Suc level) (grp @ [c]) cs)
      else if c = CHR ''}'' then
        (if level = 0 then None
         else if level = 1 then map_option (Cons (Hole grp)) (braceScan 0 [] cs)
         else braceScan (level - 1) (grp @ [c]) cs)
      else if level = 0 then map_option (Cons (Lit c)) (braceScan 0 [] cs)
      else braceScan level (grp @ [c]) cs)"

fun groups :: "piece list \<Rightarrow> string list" where
  "groups [] = []"
| "groups (Lit c # ps) = groups ps"
| "groups (Hole g # ps) = g # groups ps"

text \<open>
  A group is \<open>name\<close> or \<open>name:pattern\<close>, split at its first colon; without a colon the
  pattern is \<open>[^/]+\<close>.  The library rejects a group whose name or pattern is empty.  A
  group with a pattern of its own is compiled as a regular expression, which is outside
  this model.
\<close>

definition group_error :: "string \<Rightarrow> bool" where
  "group_error g =
     (let name = takeWhile (\<lambda>c. c \<noteq> CHR '':'') g;
          patt = (if CHR '':'' \<in> set g then tl (dropWhile (\<lambda>c. c \<noteq> CHR '':'') g)
                  else ''[^/]+'')
      in name = [] \<or> patt = [])"

definition group_custom :: "string \<Rightarrow> bool" where
  "group_custom g = (CHR '':'' \<in> set g)"

datatype route_regexp = Regexp "piece list" | RegexpError | RegexpNotModelled

definition newRouteRegexp :: "string \<Rightarrow> route_regexp" where
  "newRouteRegexp tpl =
     (case braceScan 0 [] tpl of
        None \<Rightarrow> RegexpError
      | Some ps \<Rightarrow>
          if list_ex group_error (groups ps) then RegexpError
          else if list_ex group_custom (groups ps) then RegexpNotModelled
          else Regexp ps)"

text \<open>
  \<open>addRegexpMatcher\<close> for a path or a path prefix: a template that is not empty must
  begin with a slash, or the route gets an error.
\<close>

definition addRegexpMatcher :: "string \<Rightarrow> route_regexp" where
  "addRegexpMatcher tpl =
     (if tpl \<noteq> [] \<and> hd tpl \<noteq> CHR ''/'' then RegexpError else newRouteRegexp tpl)"

definition newRoute ::
  "router outcome \<Rightarrow> matcher \<Rightarrow> string \<Rightarrow> handler \<Rightarrow> string list \<Rightarrow> router outcome" where
  "newRoute state m tpl h methods =
     (case state of
        NotModelled \<Rightarrow> NotModelled
      | Returns router \<Rightarrow>
          (case addRegexpMatcher tpl of
             Regexp ps \<Rightarrow>
               Returns (router @ [Registered \<lparr>route_path = m, route_methods = methods,
                                              route_handler = h\<rparr>])
           | RegexpError \<Rightarrow> Returns (router @ [Errored])
           | RegexpNotModelled \<Rightarrow> NotModelled))"

text \<open>
  \<open>router.HandleFunc(path, f).Methods(methods...)\<close> and
  \<open>router.Handle(path, h).Methods(methods...)\<close>.
\<close>

definition HandleFunc ::
  "router outcome \<Rightarrow> string \<Rightarrow> handler \<Rightarrow> string list \<Rightarrow> router outcome" where
  "HandleFunc state path f methods = newRoute state (Path path) path f methods"

text \<open>\<open>router.PathPrefix(tpl).Handler(h)\<close>.\<close>

definition PathPrefixHandler :: "router outcome \<Rightarrow> string \<Rightarrow> handler \<Rightarrow> router outcome" where
  "PathPrefixHandler state tpl h = newRoute state (PathPrefix tpl) tpl h []"

text \<open>
  \<open>filepath.Base\<close> with the separator \<open>/\<close>: the last element of the path, after the
  trailing slashes are dropped; \<open>.\<close> for the empty path and \<open>/\<close> for a path of slashes
  only.
\<close>

definition filepath_Base :: "string \<Rightarrow> string" where
  "filepath_Base path =
     (if path = [] then ''.''
      else (let stripped = rev (dropWhile (\<lambda>c. c = CHR ''/'') (rev path));
                base = rev (takeWhile (\<lambda>c. c \<noteq> CHR ''/'') (rev stripped))
            in if base = [] then ''/'' else base))"

definition addDebugEndpointsToRouter :: "HTTPServer \<Rightarrow> router outcome \<Rightarrow> router outcome" where
  "addDebugEndpointsToRouter server router =
     (let apiPrefix = APIPrefix (Config server);
          aggregatorEndpoint = AggregatorBaseEndpoint (ServicesConfig server);
          router = HandleFunc router (apiPrefix @ OrganizationsEndpoint)
                     (ProxyTo aggregatorEndpoint) [MethodGet];
          router = HandleFunc router (apiPrefix @ DeleteOrganizationsEndpoint)
                     (ProxyTo aggregatorEndpoint) [MethodDelete];
          router = HandleFunc router (apiPrefix @ DeleteClustersEndpoint)
                     (ProxyTo aggregatorEndpoint) [MethodDelete];
          router = HandleFunc router (apiPrefix @ GetVoteOnRuleEndpoint)
                     (ProxyTo aggregatorEndpoint) [MethodGet];
          router = HandleFunc router (apiPrefix @ RuleEndpoint)
                     (ProxyTo aggregatorEndpoint) [MethodPost];
          router = HandleFunc router (apiPrefix @ RuleErrorKeyEndpoint)
                     (ProxyTo aggregatorEndpoint) [MethodPost];
          router = HandleFunc router (apiPrefix @ RuleEndpoint)
                     (ProxyTo aggregatorEndpoint) [MethodDelete];
          router = HandleFunc router (apiPrefix @ RuleErrorKeyEndpoint)
                     (ProxyTo aggregatorEndpoint) [MethodDelete]
      in PathPrefixHandler router ''/debug/pprof/'' DefaultServeMux)"

definition addEndpointsToRouter :: "HTTPServer \<Rightarrow> router outcome \<Rightarrow> router outcome" where
  "addEndpointsToRouter server router =
     (let apiPrefix = APIPrefix (Config server);
          openAPIURL = apiPrefix @ filepath_Base (APISpecFile (Config server));
          aggregatorEndpoint = AggregatorBaseEndpoint (ServicesConfig server);
          contentServiceEndpoint = ContentBaseEndpoint (ServicesConfig server);
          router = (if Debug (Config server) then addDebugEndpointsToRouter server router
                    else router);
          router = HandleFunc router (apiPrefix @ MainEndpoint) MainEndpointHandler [MethodGet];
          router = HandleFunc router (apiPrefix @ ReportEndpoint)
                     (ProxyTo aggregatorEndpoint) [MethodGet, MethodOptions];
          router = HandleFunc router (apiPrefix @ LikeRuleEndpoint)
                     (ProxyTo aggregatorEndpoint) [MethodPut, MethodOptions];
          router = HandleFunc router (apiPrefix @ DislikeRuleEndpoint)
                     (ProxyTo aggregatorEndpoint) [MethodPut, MethodOptions];
          router = HandleFunc router (apiPrefix @ ResetVoteOnRuleEndpoint)
                     (ProxyTo aggregatorEndpoint) [MethodPut, MethodOptions];
          router = HandleFunc router (apiPrefix @ ClustersForOrganizationEndpoint)
                     (ProxyTo aggregatorEndpoint) [MethodGet];
          router = HandleFunc router (apiPrefix @ DisableRuleForClusterEndpoint)
                     (ProxyTo aggregatorEndpoint) [MethodPut, MethodOptions];
          router = HandleFunc router (apiPrefix @ EnableRuleForClusterEndpoint)
                     (ProxyTo aggregatorEndpoint) [MethodPut, MethodOptions];
          router = HandleFunc router (apiPrefix @ RuleGroupsEndpoint)
                     (ProxyTo contentServiceEndpoint) [MethodGet, MethodOptions];
          router = HandleFunc router (apiPrefix @ RuleErrorKeyEndpoint)
                     (ProxyTo aggregatorEndpoint) [MethodGet];
          router = HandleFunc router (apiPrefix @ MetricsEndpoint) MetricsHandler [MethodGet]
      in HandleFunc router openAPIURL ServeAPISpecFile [MethodGet])"

subsection \<open>Resolving a request\<close>

text \<open>
  How the router of \<open>gorilla/mux\<close> answers a request, for a router with the library's
  default options (the options the server sets are in a file that is not among the
  sources).  A variable \<open>{name}\<close> stands for one or more characters other than \<open>/\<close>,
  every other character of a template for itself; a path template must match the whole
  path, a path prefix only its beginning.  No route of a table has a variable with a
  pattern of its own, since no such route gets registered in this model.
\<close>

record request =
  req_method :: string
  req_path :: string









subsection \<open>Vocabulary for the table\<close>
















definition debug_only_requests ::
  "string \<Rightarrow> string \<Rightarrow> string \<Rightarrow> string \<Rightarrow> string \<Rightarrow> request list" where
  "debug_only_requests p orgs cluster rule key =
     [\<lparr>req_method = ''GET'', req_path = p @ ''organizations''\<rparr>,
      \<lparr>req_method = ''DELETE'', req_path = p @ ''organizations/'' @ orgs\<rparr>,
      \<lparr>req_method = ''DELETE'', req_path = p @ ''clusters/'' @ cluster\<rparr>,
      \<lparr>req_method = ''GET'',
        req_path = p @ ''clusters/'' @ cluster @ ''/rules/'' @ rule @ ''/get_vote''\<rparr>,
      \<lparr>req_method = ''POST'', req_path = p @ ''rules/'' @ rule\<rparr>,
      \<lparr>req_method = ''POST'', req_path = p @ ''rules/'' @ rule @ ''/error_keys/'' @ key\<rparr>,
      \<lparr>req_method = ''DELETE'', req_path = p @ ''rules/'' @ rule\<rparr>,
      \<lparr>req_method = ''DELETE'', req_path = p @ ''rules/'' @ rule @ ''/error_keys/'' @ key\<rparr>]"


section \<open>The proxy forwarder\<close>

text \<open>
  An inbound request that was matched to a proxied route: \<open>in_path\<close> is its resolved
  path, the route's template relative to the API prefix with the path parameters of the
  request filled in.
\<close>

record inbound_request =
  in_method :: string
  in_path :: string
  in_query :: string
  in_headers :: "(string \<times> string) list"
  in_body :: string

record outbound_request =
  out_method :: string
  out_url :: string
  out_query :: string
  out_headers :: "(string \<times> string) list"
  out_body :: string

record backend_response =
  resp_status :: nat
  resp_headers :: "(string \<times> string) list"
  resp_body :: string

text \<open>
  What the original caller gets: the backend's response, or the gateway's own 5xx answer
  with a diagnostic body after a transport failure.
\<close>

datatype reply = Relayed backend_response | GatewayFailure

text \<open>
  Modelled from the spec: the outbound request that \<open>proxyTo\<close> builds.  \<open>proxyTo\<close> is
  defined in \<open>server.go\<close>, which is not among the sources.  The specification says that
  the outbound request has the same method, query string, header set and body as the
  inbound one and goes to the backend base endpoint joined with the resolved path.
\<close>

definition outbound_for :: "string \<Rightarrow> inbound_request \<Rightarrow> outbound_request" where
  "outbound_for backendBaseEndpoint req =
     \<lparr>out_method = in_method req,
      out_url = backendBaseEndpoint @ ''/'' @ in_path req,
      out_query = in_query req,
      out_headers = in_headers req,
      out_body = in_body req\<rparr>"

text \<open>
  Modelled from the spec: the handler that \<open>proxyTo\<close> returns, missing with
  \<open>server.go\<close>.  The specification says that it sends the outbound request once and
  waits; on success it copies the backend's status code, headers and body to the caller
  unchanged; on a transport failure it answers with a 5xx status itself.  \<open>send\<close> is the
  network: the backend's response, or \<open>None\<close> for a transport failure.  The result is
  the reply together with the outbound requests that were made.
\<close>

definition proxyTo ::
  "string \<Rightarrow> (outbound_request \<Rightarrow> backend_response option) \<Rightarrow> inbound_request
     \<Rightarrow> reply \<times> outbound_request list" where
  "proxyTo backendBaseEndpoint send req =
     (let out = outbound_for backendBaseEndpoint req
      in (case send out of
            Some response \<Rightarrow> (Relayed response, [out])
          | None \<Rightarrow> (GatewayFailure, [out])))"

section \<open>Properties of the URL template builder\<close>

subsection \<open>The placeholder scan\<close>

lemma not_word_special [simp]:
  "\<not> is_word CHR ''{''" "\<not> is_word CHR ''}''" "\<not> is_word CHR ''%''"
  by (simp_all add: is_word_def)

lemma re_match_Some_iff:
  "re_match s = Some (name, rest) \<longleftrightarrow>
     s = CHR ''{'' # name @ CHR ''}'' # rest \<and> name \<noteq> [] \<and> (\<forall>c\<in>set name. is_word c)"
proof
  assume m: "re_match s = Some (name, rest)"
  then obtain cs where s: "s = CHR ''{'' # cs"
    by (cases s) (auto simp: re_match_def split: if_splits)
  from m s have n: "name = takeWhile is_word cs" and nn: "name \<noteq> []"
    and d: "dropWhile is_word cs = CHR ''}'' # rest"
    by (auto simp: re_match_def Let_def split: if_splits list.splits)
  have "cs = takeWhile is_word cs @ dropWhile is_word cs"
    by simp
  with n d have "cs = name @ CHR ''}'' # rest"
    by simp
  moreover from n have "\<forall>c\<in>set name. is_word c"
    by (auto dest: set_takeWhileD)
  ultimately show "s = CHR ''{'' # name @ CHR ''}'' # rest \<and> name \<noteq> []
      \<and> (\<forall>c\<in>set name. is_word c)"
    using s nn by simp
next
  assume a: "s = CHR ''{'' # name @ CHR ''}'' # rest \<and> name \<noteq> []
      \<and> (\<forall>c\<in>set name. is_word c)"
  then have t: "takeWhile is_word (name @ CHR ''}'' # rest) = name"
    and d: "dropWhile is_word (name @ CHR ''}'' # rest) = CHR ''}'' # rest"
    by (simp_all add: takeWhile_append2 dropWhile_append2)
  from a show "re_match s = Some (name, rest)"
    by (simp add: re_match_def t d)
qed

lemma re_match_suffix:
  "re_match (c # cs) = Some (name, rest) \<Longrightarrow> set rest \<subseteq> set cs"
  by (auto simp: re_match_Some_iff)

lemma re_match_not_brace: "c \<noteq> CHR ''{'' \<Longrightarrow> re_match (c # cs) = None"
  by (simp add: re_match_def)

lemma pieces_lits: "set (lits (pieces s)) \<subseteq> set s"
proof (induction s rule: pieces.induct)
  case 1
  show ?case by simp
next
  case (2 c cs)
  show ?case
  proof (cases "re_match (c # cs)")
    case None
    with 2 show ?thesis by auto
  next
    case (Some x)
    obtain name rest where x: "x = (name, rest)"
      by (cases x)
    with Some 2 have "set (lits (pieces rest)) \<subseteq> set rest"
      by simp
    moreover from Some x have "set rest \<subseteq> set cs"
      by (auto dest: re_match_suffix)
    ultimately show ?thesis
      using Some x by auto
  qed
qed

lemma pieces_literal_prefix:
  "CHR ''{'' \<notin> set body \<Longrightarrow> pieces (body @ s) = map Lit body @ pieces s"
proof (induction body)
  case Nil
  show ?case by simp
next
  case (Cons c body)
  then have "c \<noteq> CHR ''{''" and "pieces (body @ s) = map Lit body @ pieces s"
    by auto
  then show ?case
    by (simp add: re_match_not_brace)
qed

lemma holes_append: "holes (ps @ qs) = holes ps + holes qs"
  by (induction ps rule: holes.induct) simp_all

lemma holes_map_Lit: "holes (map Lit s) = 0"
  by (induction s) simp_all

lemma count_placeholders_no_brace:
  "CHR ''{'' \<notin> set s \<Longrightarrow> count_placeholders s = 0"
  using pieces_literal_prefix [of s "[]"] by (simp add: count_placeholders_def holes_map_Lit)

text \<open>A match cannot reach over an opening brace, so the scan can be cut in front of one.\<close>

lemma re_match_before_brace:
  "re_match (c # cs @ CHR ''{'' # r) =
     map_option (\<lambda>(name, rest). (name, rest @ CHR ''{'' # r)) (re_match (c # cs))"
proof (cases "c = CHR ''{''")
  case False
  then show ?thesis
    by (simp add: re_match_not_brace)
next
  case True
  show ?thesis
  proof (cases "\<forall>x\<in>set cs. is_word x")
    case all: True
    then have tw: "takeWhile is_word (cs @ CHR ''{'' # r) = cs"
      "dropWhile is_word (cs @ CHR ''{'' # r) = CHR ''{'' # r"
      "takeWhile is_word cs = cs" "dropWhile is_word cs = []"
      by (simp_all add: takeWhile_append2 dropWhile_append2)
    show ?thesis
      using True by (simp add: re_match_def Let_def tw)
  next
    case False
    then obtain x where x: "x \<in> set cs" "\<not> is_word x"
      by blast
    then have "takeWhile is_word (cs @ CHR ''{'' # r) = takeWhile is_word cs"
      "dropWhile is_word (cs @ CHR ''{'' # r) = dropWhile is_word cs @ CHR ''{'' # r"
      by (simp_all add: takeWhile_append1 dropWhile_append1)
    moreover from x have "dropWhile is_word cs \<noteq> []"
      by (auto simp: dropWhile_eq_Nil_conv)
    ultimately show ?thesis
      using True by (cases "dropWhile is_word cs") (simp_all add: re_match_def Let_def)
  qed
qed

lemma pieces_before_brace:
  "pieces (pre @ CHR ''{'' # r) = pieces pre @ pieces (CHR ''{'' # r)"
proof (induction pre rule: pieces.induct)
  case 1
  show ?case by simp
next
  case (2 c cs)
  show ?case
  proof (cases "re_match (c # cs)")
    case None
    with 2 show ?thesis
      by (simp add: re_match_before_brace)
  next
    case (Some x)
    obtain name rest where x: "x = (name, rest)"
      by (cases x)
    with Some 2 have "pieces (rest @ CHR ''{'' # r) = pieces rest @ pieces (CHR ''{'' # r)"
      by simp
    with Some x show ?thesis
      by (simp add: re_match_before_brace)
  qed
qed

lemma first_occurrence_unique:
  "x \<notin> set xs \<Longrightarrow> x \<notin> set xs' \<Longrightarrow> xs @ x # ys = xs' @ x # ys' \<Longrightarrow> xs = xs'"
proof (induction xs arbitrary: xs')
  case Nil
  then show ?case by (cases xs') auto
next
  case (Cons a xs)
  then show ?case by (cases xs') auto
qed

lemma re_match_other_group:
  assumes "CHR ''}'' \<notin> set body" "\<not> is_placeholder_name body"
  shows "re_match (CHR ''{'' # body @ CHR ''}'' # post) = None"
proof (rule ccontr)
  assume "re_match (CHR ''{'' # body @ CHR ''}'' # post) \<noteq> None"
  then obtain name rest
    where "re_match (CHR ''{'' # body @ CHR ''}'' # post) = Some (name, rest)"
    by auto
  then have eq: "body @ CHR ''}'' # post = name @ CHR ''}'' # rest"
    and n: "name \<noteq> []" "\<forall>c\<in>set name. is_word c"
    by (simp_all add: re_match_Some_iff)
  from n have "CHR ''}'' \<notin> set name"
    by auto
  with eq assms(1) have "body = name"
    by (blast intro: first_occurrence_unique)
  with n assms(2) show False
    by (simp add: is_placeholder_name_def list_all_iff)
qed

lemma pieces_other_group:
  assumes "CHR ''{'' \<notin> set body" "CHR ''}'' \<notin> set body" "\<not> is_placeholder_name body"
  shows "pieces (CHR ''{'' # body @ CHR ''}'' # post) =
           map Lit (CHR ''{'' # body @ ''}'') @ pieces post"
proof -
  have "pieces (CHR ''{'' # body @ CHR ''}'' # post)
          = Lit CHR ''{'' # pieces (body @ CHR ''}'' # post)"
    using re_match_other_group [OF assms(2,3)] by simp
  also have "pieces (body @ CHR ''}'' # post) = map Lit body @ pieces (CHR ''}'' # post)"
    using assms(1) by (rule pieces_literal_prefix)
  also have "pieces (CHR ''}'' # post) = Lit CHR ''}'' # pieces post"
    by (simp add: re_match_not_brace)
  finally show ?thesis
    by simp
qed

lemma pieces_around_other_group:
  assumes "CHR ''{'' \<notin> set body" "CHR ''}'' \<notin> set body" "\<not> is_placeholder_name body"
  shows "pieces (pre @ CHR ''{'' # body @ CHR ''}'' # post) =
           pieces pre @ map Lit (CHR ''{'' # body @ ''}'') @ pieces post"
  using pieces_before_brace [of pre "body @ CHR ''}'' # post"] pieces_other_group [OF assms]
  by simp

subsection \<open>Substitution\<close>

lemma substitute_map_Lit: "substitute (map Lit s @ ps) vs = s @ substitute ps vs"
  by (induction s) simp_all

lemma substitute_append:
  "holes ps \<le> length vs \<Longrightarrow>
   substitute (ps @ qs) vs
     = substitute ps (take (holes ps) vs) @ substitute qs (drop (holes ps) vs)"
proof (induction ps vs rule: substitute.induct)
  case (1 vs)
  show ?case by simp
next
  case (2 c ps vs)
  then show ?case by simp
next
  case (3 name ps v vs)
  then show ?case by simp
next
  case (4 name ps)
  then show ?case by simp
qed

lemma substitute_take:
  "holes ps \<le> length vs \<Longrightarrow> substitute ps vs = substitute ps (take (holes ps) vs)"
  using substitute_append [of ps vs "[]"] by simp

lemma set_substitute:
  "holes ps \<le> length vs \<Longrightarrow>
   set (substitute ps vs) \<subseteq> set (lits ps) \<union> (\<Union>v\<in>set vs. set v)"
proof (induction ps vs rule: substitute.induct)
  case (1 vs)
  show ?case by simp
next
  case (2 c ps vs)
  then show ?case by auto
next
  case (3 name ps v vs)
  then show ?case by auto
next
  case (4 name ps)
  then show ?case by simp
qed

subsection \<open>What \<open>Sprintf\<close> makes of a template without percent signs\<close>

lemma doPrintf_expand:
  "CHR ''%'' \<notin> set (lits ps) \<Longrightarrow>
   doPrintf (concat (map (expand ''%v'') ps)) a =
     Returns (substitute ps (map fmt_v a @ replicate (holes ps - length a) ''%!v(MISSING)''),
              drop (holes ps) a)"
proof (induction ps arbitrary: a)
  case Nil
  show ?case by simp
next
  case (Cons p ps)
  show ?case
  proof (cases p)
    case (Lit c)
    with Cons.prems have "c \<noteq> CHR ''%''" and "CHR ''%'' \<notin> set (lits ps)"
      by auto
    with Lit Cons.IH [of a] show ?thesis
      by simp
  next
    case (Hole name)
    with Cons.prems have pf: "CHR ''%'' \<notin> set (lits ps)"
      by simp
    show ?thesis
    proof (cases a)
      case Nil
      with Hole Cons.IH [OF pf, of "[]"] show ?thesis
        by simp
    next
      case (Cons x a')
      with Hole Cons.IH [OF pf, of a'] show ?thesis
        by simp
    qed
  qed
qed

lemma MakeURLToEndpoint_general:
  assumes "CHR ''%'' \<notin> set template"
  shows "MakeURLToEndpoint apiPrefix template a =
     Returns (apiPrefix
       @ substitute (pieces template) (verb_values (count_placeholders template) a)
       @ surplus (count_placeholders template) a)"
proof -
  from assms pieces_lits [of template] have "CHR ''%'' \<notin> set (lits (pieces template))"
    by auto
  then show ?thesis
    by (simp add: MakeURLToEndpoint_def Sprintf_def ReplaceAllString_def doPrintf_expand
        count_placeholders_def verb_values_def surplus_def)
qed

lemma like_pieces:
  "pieces ''clusters/{cluster}/rules/{rule_id}/like'' =
     map Lit ''clusters/'' @ Hole ''cluster'' # map Lit ''/rules/'' @ Hole ''rule_id''
       # map Lit ''/like''"
  by code_simp

lemma like_count: "count_placeholders ''clusters/{cluster}/rules/{rule_id}/like'' = 2"
  by (simp add: count_placeholders_def like_pieces del: pieces.simps)

lemma like_url_count: "count_placeholders ''/api/v1/clusters/c1/rules/r1/like'' = 0"
  by (rule count_placeholders_no_brace) simp

subsection \<open>Filling the placeholders\<close>

text \<open>
  Claim C2, as the code has it.  For a template without a percent sign and as many
  arguments as the template has placeholders, \<open>MakeURLToEndpoint\<close> returns the prefix
  followed by the template in which every placeholder, from left to right, is replaced by
  the text of the argument at the same position.  When moreover neither the prefix, nor
  the template outside its placeholders, nor the text of an argument has an opening
  brace, the result has no placeholder left.
\<close>

theorem buildURL_fills_placeholders_in_order:
  assumes "CHR ''%'' \<notin> set template" and "length a = count_placeholders template"
  shows "MakeURLToEndpoint apiPrefix template a
           = Returns (apiPrefix @ substitute (pieces template) (map fmt_v a))
         \<and> (CHR ''{'' \<notin> set apiPrefix \<and> CHR ''{'' \<notin> set (lits (pieces template))
              \<and> (\<forall>x\<in>set a. CHR ''{'' \<notin> set (fmt_v x))
            \<longrightarrow> count_placeholders (apiPrefix @ substitute (pieces template) (map fmt_v a)) = 0)"
proof (intro conjI impI)
  show "MakeURLToEndpoint apiPrefix template a
          = Returns (apiPrefix @ substitute (pieces template) (map fmt_v a))"
    using MakeURLToEndpoint_general [OF assms(1), of apiPrefix a] assms(2)
    by (simp add: verb_values_def surplus_def)
next
  assume free: "CHR ''{'' \<notin> set apiPrefix \<and> CHR ''{'' \<notin> set (lits (pieces template))
              \<and> (\<forall>x\<in>set a. CHR ''{'' \<notin> set (fmt_v x))"
  have "holes (pieces template) \<le> length (map fmt_v a)"
    using assms(2) by (simp add: count_placeholders_def)
  then have "set (substitute (pieces template) (map fmt_v a))
               \<subseteq> set (lits (pieces template)) \<union> (\<Union>v\<in>set (map fmt_v a). set v)"
    by (rule set_substitute)
  with free have "CHR ''{'' \<notin> set (apiPrefix @ substitute (pieces template) (map fmt_v a))"
    by auto
  then show "count_placeholders (apiPrefix @ substitute (pieces template) (map fmt_v a)) = 0"
    by (rule count_placeholders_no_brace)
qed

text \<open>
  The specification's example: the like endpoint under \<open>/api/v1/\<close> with the arguments
  \<open>c1\<close> and \<open>r1\<close>.
\<close>

theorem buildURL_fills_placeholders_in_order_witness:
  "CHR ''%'' \<notin> set ''clusters/{cluster}/rules/{rule_id}/like''
   \<and> length [GoVal ''string'' ''c1'', GoVal ''string'' ''r1'']
       = count_placeholders ''clusters/{cluster}/rules/{rule_id}/like''
   \<and> MakeURLToEndpoint ''/api/v1/'' ''clusters/{cluster}/rules/{rule_id}/like''
         [GoVal ''string'' ''c1'', GoVal ''string'' ''r1'']
       = Returns ''/api/v1/clusters/c1/rules/r1/like''
   \<and> count_placeholders ''/api/v1/clusters/c1/rules/r1/like'' = 0"
  using buildURL_fills_placeholders_in_order
          [of "''clusters/{cluster}/rules/{rule_id}/like''"
              "[GoVal ''string'' ''c1'', GoVal ''string'' ''r1'']" "''/api/v1/''"]
  by (simp add: like_count like_pieces like_url_count del: pieces.simps)

text \<open>
  Claim C2 as stated fails on two kinds of input with the right number of arguments.
  The template \<open>{a{x}b}\<close> has the one placeholder \<open>{x}\<close>; filled with \<open>c\<close> the result is
  \<open>{acb}\<close>, which is placeholder syntax again.  The template \<open>%{x}\<close> becomes the format
  \<open>%%v\<close>, so the argument is not put in the placeholder's place but reported as surplus.
\<close>

theorem buildURL_leftover_syntax_counterexample:
  "length [GoVal ''string'' ''c''] = count_placeholders ''{a{x}b}''
   \<and> MakeURLToEndpoint '''' ''{a{x}b}'' [GoVal ''string'' ''c''] = Returns ''{acb}''
   \<and> count_placeholders ''{acb}'' = 1
   \<and> length [GoVal ''string'' ''c''] = count_placeholders ''%{x}''
   \<and> MakeURLToEndpoint '''' ''%{x}'' [GoVal ''string'' ''c'']
       = Returns ''%v%!(EXTRA string=c)''"
  by code_simp

subsection \<open>The wrong number of arguments\<close>

text \<open>
  Claim C3, as the code has it.  \<open>MakeURLToEndpoint\<close> checks no arity and has no error
  result.  For a template without a percent sign it returns a string whatever the number
  of arguments: with too few, every placeholder beyond the last argument reads
  \<open>%!v(MISSING)\<close>; with too many, the placeholders are filled by the first arguments
  and the others are appended as \<open>%!(EXTRA type=value, ...)\<close>.
\<close>

theorem buildURL_arity_mismatch_returns_string:
  assumes "CHR ''%'' \<notin> set template"
  shows "(length a < count_placeholders template \<longrightarrow>
            MakeURLToEndpoint apiPrefix template a
              = Returns (apiPrefix @ substitute (pieces template)
                  (map fmt_v a
                   @ replicate (count_placeholders template - length a) ''%!v(MISSING)'')))
         \<and> (count_placeholders template < length a \<longrightarrow>
            MakeURLToEndpoint apiPrefix template a
              = Returns (apiPrefix
                  @ substitute (pieces template)
                      (map fmt_v (take (count_placeholders template) a))
                  @ ''%!(EXTRA ''
                  @ join '', '' (map fmt_extra (drop (count_placeholders template) a))
                  @ '')''))"
proof (intro conjI impI)
  assume "length a < count_placeholders template"
  then show "MakeURLToEndpoint apiPrefix template a
              = Returns (apiPrefix @ substitute (pieces template)
                  (map fmt_v a
                   @ replicate (count_placeholders template - length a) ''%!v(MISSING)''))"
    using MakeURLToEndpoint_general [OF assms, of apiPrefix a]
    by (simp add: verb_values_def surplus_def)
next
  assume more: "count_placeholders template < length a"
  then have "holes (pieces template) \<le> length (map fmt_v a)"
    by (simp add: count_placeholders_def)
  then have "substitute (pieces template) (map fmt_v a)
      = substitute (pieces template) (map fmt_v (take (count_placeholders template) a))"
    using substitute_take [of "pieces template" "map fmt_v a"]
    by (simp add: count_placeholders_def take_map)
  with more show "MakeURLToEndpoint apiPrefix template a
              = Returns (apiPrefix
                  @ substitute (pieces template)
                      (map fmt_v (take (count_placeholders template) a))
                  @ ''%!(EXTRA ''
                  @ join '', '' (map fmt_extra (drop (count_placeholders template) a))
                  @ '')'')"
    using MakeURLToEndpoint_general [OF assms, of apiPrefix a]
    by (simp add: extraString_def verb_values_def surplus_def)
qed

theorem buildURL_arity_mismatch_returns_string_witness:
  "CHR ''%'' \<notin> set ''clusters/{cluster}/rules/{rule_id}/like''
   \<and> length [GoVal ''string'' ''c1'']
       < count_placeholders ''clusters/{cluster}/rules/{rule_id}/like''
   \<and> MakeURLToEndpoint ''/api/v1/'' ''clusters/{cluster}/rules/{rule_id}/like''
         [GoVal ''string'' ''c1'']
       = Returns ''/api/v1/clusters/c1/rules/%!v(MISSING)/like''
   \<and> count_placeholders ''clusters/{cluster}/rules/{rule_id}/like''
       < length [GoVal ''string'' ''c1'', GoVal ''string'' ''r1'', GoVal ''int'' ''7'', GoNil]
   \<and> MakeURLToEndpoint ''/api/v1/'' ''clusters/{cluster}/rules/{rule_id}/like''
         [GoVal ''string'' ''c1'', GoVal ''string'' ''r1'', GoVal ''int'' ''7'', GoNil]
       = Returns ''/api/v1/clusters/c1/rules/r1/like%!(EXTRA int=7, <nil>)''"
  using buildURL_arity_mismatch_returns_string
          [of "''clusters/{cluster}/rules/{rule_id}/like''" "[GoVal ''string'' ''c1'']"
              "''/api/v1/''"]
        buildURL_arity_mismatch_returns_string
          [of "''clusters/{cluster}/rules/{rule_id}/like''"
              "[GoVal ''string'' ''c1'', GoVal ''string'' ''r1'', GoVal ''int'' ''7'', GoNil]"
              "''/api/v1/''"]
  by (simp add: like_count like_pieces del: pieces.simps)

text \<open>
  Claim C3 as stated fails: with one argument for the two placeholders of the like
  endpoint the call is not rejected; it returns a URL with the second placeholder unfilled.
\<close>

theorem buildURL_arity_mismatch_counterexample:
  "length [GoVal ''string'' ''c1'']
     \<noteq> count_placeholders ''clusters/{cluster}/rules/{rule_id}/like''
   \<and> MakeURLToEndpoint ''/api/v1/'' ''clusters/{cluster}/rules/{rule_id}/like''
         [GoVal ''string'' ''c1'']
       = Returns ''/api/v1/clusters/c1/rules/%!v(MISSING)/like''"
  by code_simp

subsection \<open>Brace groups that are not placeholders\<close>

text \<open>
  Claim C9, as the code has it.  Take a brace group whose content has no brace and is not
  a non-empty run of characters of \<open>[a-zA-Z_0-9]\<close>.  Wherever it stands in a template,
  the replacement step copies it unchanged and it does not count as a placeholder.  If
  the template has no percent sign, the group is in the result as it was written, and
  of the values that \<open>Sprintf\<close> has for the verbs the placeholders before the group get
  the first ones and the placeholders after it the next ones: the group uses no argument
  and shifts none, whatever the number of arguments.
\<close>

theorem other_brace_groups_left_verbatim:
  assumes "CHR ''{'' \<notin> set body" "CHR ''}'' \<notin> set body" "\<not> is_placeholder_name body"
  shows "ReplaceAllString (pre @ CHR ''{'' # body @ CHR ''}'' # post) repl
           = ReplaceAllString pre repl @ CHR ''{'' # body @ CHR ''}''
               # ReplaceAllString post repl
         \<and> count_placeholders (pre @ CHR ''{'' # body @ CHR ''}'' # post)
           = count_placeholders pre + count_placeholders post
         \<and> (CHR ''%'' \<notin> set (pre @ body @ post) \<longrightarrow>
            MakeURLToEndpoint apiPrefix (pre @ CHR ''{'' # body @ CHR ''}'' # post) a
              = Returns (apiPrefix
                  @ substitute (pieces pre)
                      (take (count_placeholders pre)
                         (verb_values (count_placeholders pre + count_placeholders post) a))
                  @ CHR ''{'' # body @ CHR ''}''
                  # substitute (pieces post)
                      (drop (count_placeholders pre)
                         (verb_values (count_placeholders pre + count_placeholders post) a))
                  @ surplus (count_placeholders pre + count_placeholders post) a))"
proof (intro conjI impI)
  let ?t = "pre @ CHR ''{'' # body @ CHR ''}'' # post"
  let ?n = "count_placeholders pre + count_placeholders post"
  have ps: "pieces ?t = pieces pre @ map Lit (CHR ''{'' # body @ ''}'') @ pieces post"
    using assms by (rule pieces_around_other_group)
  have lit: "concat (map (expand repl) (map Lit s)) = s" for s
    by (induction s) simp_all
  show "ReplaceAllString ?t repl
           = ReplaceAllString pre repl @ CHR ''{'' # body @ CHR ''}''
               # ReplaceAllString post repl"
    unfolding ReplaceAllString_def ps by (simp add: lit del: map_map)
  show cnt: "count_placeholders ?t = ?n"
    unfolding count_placeholders_def ps by (simp add: holes_append holes_map_Lit del: map_append)
  assume "CHR ''%'' \<notin> set (pre @ body @ post)"
  then have pf: "CHR ''%'' \<notin> set ?t"
    by auto
  have le: "holes (pieces pre) \<le> length (verb_values ?n a)"
    by (simp add: count_placeholders_def verb_values_def)
  have "substitute (pieces ?t) (verb_values ?n a)
      = substitute (pieces pre) (take (holes (pieces pre)) (verb_values ?n a))
        @ substitute (map Lit (CHR ''{'' # body @ ''}'') @ pieces post)
            (drop (holes (pieces pre)) (verb_values ?n a))"
    unfolding ps using le by (rule substitute_append)
  also have "\<dots> = substitute (pieces pre) (take (count_placeholders pre) (verb_values ?n a))
        @ CHR ''{'' # body @ CHR ''}''
        # substitute (pieces post) (drop (count_placeholders pre) (verb_values ?n a))"
    by (simp only: substitute_map_Lit count_placeholders_def) simp
  finally show "MakeURLToEndpoint apiPrefix ?t a
              = Returns (apiPrefix
                  @ substitute (pieces pre) (take (count_placeholders pre) (verb_values ?n a))
                  @ CHR ''{'' # body @ CHR ''}''
                  # substitute (pieces post) (drop (count_placeholders pre) (verb_values ?n a))
                  @ surplus ?n a)"
    using MakeURLToEndpoint_general [OF pf, of apiPrefix a] cnt by simp
qed

theorem other_brace_groups_left_verbatim_witness:
  "CHR ''{'' \<notin> set ''rule-id'' \<and> CHR ''}'' \<notin> set ''rule-id''
   \<and> \<not> is_placeholder_name ''rule-id''
   \<and> CHR ''%'' \<notin> set (''rules/{a}/'' @ ''rule-id'' @ ''/{b}'')
   \<and> ReplaceAllString ''rules/{a}/{rule-id}/{b}'' ''%v'' = ''rules/%v/{rule-id}/%v''
   \<and> MakeURLToEndpoint ''/'' ''rules/{a}/{rule-id}/{b}''
        [GoVal ''string'' ''x'', GoVal ''string'' ''y'']
       = Returns ''/rules/x/{rule-id}/y''
   \<and> MakeURLToEndpoint ''/'' ''rules/{a}/{rule-id}/{b}'' [GoVal ''string'' ''x'']
       = Returns ''/rules/x/{rule-id}/%!v(MISSING)''"
proof -
  have p1: "pieces ''rules/{a}/'' = map Lit ''rules/'' @ [Hole ''a'', Lit CHR ''/'']"
    and p2: "pieces ''/{b}'' = [Lit CHR ''/'', Hole ''b'']"
    by code_simp+
  have n: "\<not> is_placeholder_name ''rule-id''"
    by (simp add: is_placeholder_name_def is_word_def)
  show ?thesis
    using other_brace_groups_left_verbatim
            [where body = "''rule-id''" and pre = "''rules/{a}/''" and post = "''/{b}''"
               and repl = "''%v''" and apiPrefix = "''/''"
               and a = "[GoVal ''string'' ''x'', GoVal ''string'' ''y'']"]
          other_brace_groups_left_verbatim
            [where body = "''rule-id''" and pre = "''rules/{a}/''" and post = "''/{b}''"
               and repl = "''%v''" and apiPrefix = "''/''"
               and a = "[GoVal ''string'' ''x'']"] n
    by (simp add: count_placeholders_def ReplaceAllString_def verb_values_def surplus_def p1 p2
        del: pieces.simps)
qed

text \<open>
  Claim C9 as stated fails for a brace group with a formatting verb inside: \<open>{%v}\<close> is
  not a placeholder, yet \<open>Sprintf\<close> fills it with the first argument, so it is not left
  as written and the placeholder \<open>{x}\<close> after it gets the second argument.
\<close>

theorem percent_brace_group_counterexample:
  "\<not> is_placeholder_name ''%v''
   \<and> MakeURLToEndpoint '''' ''{%v}/{x}'' [GoVal ''string'' ''a'', GoVal ''string'' ''b'']
       = Returns ''{a}/b''"
  by code_simp

section \<open>Properties of the route table\<close>











subsection \<open>The shape of the table\<close>








lemma example_base_metrics: "filepath_Base ''/srv/metrics'' = ''metrics''"
  by code_simp

lemma example_base_organizations: "filepath_Base ''/srv/organizations'' = ''organizations''"
  by code_simp




text \<open>
  With a prefix that does not begin with a slash, or with an open brace, the library
  rejects every template of the table: the table has twelve entries, each with an error.
\<close>

lemma rejected_prefix_example:
  "addEndpointsToRouter
     \<lparr>Config = \<lparr>APIPrefix = ''api/v1/'', APISpecFile = ''/etc/openapi.json'', Debug = False\<rparr>,
      ServicesConfig = \<lparr>AggregatorBaseEndpoint = ''http://aggregator:8080/api/v1'',
                        ContentBaseEndpoint = ''http://content:8080/api/v1''\<rparr>\<rparr> (Returns [])
   = Returns (replicate 12 Errored)"
  "addEndpointsToRouter
     \<lparr>Config = \<lparr>APIPrefix = ''/api/{v/'', APISpecFile = ''/etc/openapi.json'', Debug = False\<rparr>,
      ServicesConfig = \<lparr>AggregatorBaseEndpoint = ''http://aggregator:8080/api/v1'',
                        ContentBaseEndpoint = ''http://content:8080/api/v1''\<rparr>\<rparr> (Returns [])
   = Returns (replicate 12 Errored)"
  by code_simp+

subsection \<open>The pairs a table is registered under\<close>



















subsection \<open>Comparing templates with paths\<close>















subsection \<open>The answers to the debug requests\<close>









lemma example_requests:
  "debug_only_requests ''/api/v1/'' ''org1'' ''c1'' ''r1'' ''k1''
     = [\<lparr>req_method = ''GET'', req_path = ''/api/v1/organizations''\<rparr>,
        \<lparr>req_method = ''DELETE'', req_path = ''/api/v1/organizations/org1''\<rparr>,
        \<lparr>req_method = ''DELETE'', req_path = ''/api/v1/clusters/c1''\<rparr>,
        \<lparr>req_method = ''GET'', req_path = ''/api/v1/clusters/c1/rules/r1/get_vote''\<rparr>,
        \<lparr>req_method = ''POST'', req_path = ''/api/v1/rules/r1''\<rparr>,
        \<lparr>req_method = ''POST'', req_path = ''/api/v1/rules/r1/error_keys/k1''\<rparr>,
        \<lparr>req_method = ''DELETE'', req_path = ''/api/v1/rules/r1''\<rparr>,
        \<lparr>req_method = ''DELETE'', req_path = ''/api/v1/rules/r1/error_keys/k1''\<rparr>]"
  by (simp add: debug_only_requests_def)




subsection \<open>Routes under the same method and path\<close>




subsection \<open>The debug routes\<close>




subsection \<open>The standard routes\<close>




section \<open>Properties of the proxy forwarder\<close>

text \<open>
  Claim C6.  For every inbound request of a proxied route the handler makes exactly one
  outbound request; it has the method, query string, headers and body of the inbound
  request and goes to the backend base endpoint joined with the resolved path.  When the
  backend answers, the caller gets that answer unchanged: the same status code, headers
  and body.
\<close>

theorem proxyTo_relays_unchanged:
  "snd (proxyTo base send req) = [outbound_for base req]
   \<and> out_method (outbound_for base req) = in_method req
   \<and> out_query (outbound_for base req) = in_query req
   \<and> out_headers (outbound_for base req) = in_headers req
   \<and> out_body (outbound_for base req) = in_body req
   \<and> out_url (outbound_for base req) = base @ ''/'' @ in_path req
   \<and> (\<forall>response. send (outbound_for base req) = Some response
         \<longrightarrow> fst (proxyTo base send req) = Relayed response)"
  by (simp add: proxyTo_def outbound_for_def Let_def split: option.split)

text \<open>
  The specification's example: a \<open>GET\<close> of \<open>report/org1/cluster1\<close> with an empty body,
  proxied to the aggregator.
\<close>

theorem proxyTo_relays_unchanged_witness:
  "proxyTo ''http://aggregator:8080/api/v1''
     (\<lambda>out. if out_url out = ''http://aggregator:8080/api/v1/report/org1/cluster1''
               \<and> out_method out = ''GET'' \<and> out_body out = ''''
            then Some \<lparr>resp_status = 200, resp_headers = [(''Content-Type'', ''application/json'')],
                       resp_body = ''{report}''\<rparr>
            else None)
     \<lparr>in_method = ''GET'', in_path = ''report/org1/cluster1'', in_query = '''',
      in_headers = [(''Authorization'', ''token'')], in_body = ''''\<rparr>
   = (Relayed \<lparr>resp_status = 200, resp_headers = [(''Content-Type'', ''application/json'')],
               resp_body = ''{report}''\<rparr>,
      [\<lparr>out_method = ''GET'',
        out_url = ''http://aggregator:8080/api/v1/report/org1/cluster1'',
        out_query = '''', out_headers = [(''Authorization'', ''token'')], out_body = ''''\<rparr>])"
  using proxyTo_relays_unchanged
          [of "''http://aggregator:8080/api/v1''"
              "\<lambda>out. if out_url out = ''http://aggregator:8080/api/v1/report/org1/cluster1''
                        \<and> out_method out = ''GET'' \<and> out_body out = ''''
                     then Some \<lparr>resp_status = 200,
                                resp_headers = [(''Content-Type'', ''application/json'')],
                                resp_body = ''{report}''\<rparr>
                     else None"
              "\<lparr>in_method = ''GET'', in_path = ''report/org1/cluster1'', in_query = '''',
               in_headers = [(''Authorization'', ''token'')], in_body = ''''\<rparr>"]
  by (simp add: outbound_for_def prod_eq_iff)

section \<open>Properties of the command dispatch\<close>

lemma handleCommand_default:
  "command \<notin> {''start-service'', ''print-version'', ''print-help'', ''print-config'', ''print-env''}
   \<Longrightarrow> handleCommand env command tr = (ExitStatusOK, tr)"
  by (simp add: handleCommand_def)

text \<open>
  Claim C8.  A command token outside the recognised set
  \<open>start-service\<close>, \<open>print-version\<close>, \<open>print-help\<close>, \<open>print-config\<close>, \<open>print-env\<close>
  makes \<open>handleCommand\<close> run no action at all (the trace is returned as it came in) and
  return the success status 0.
\<close>

theorem unknown_command_is_silent_noop:
  assumes "command \<notin> {''start-service'', ''print-version'', ''print-help'',
                       ''print-config'', ''print-env''}"
  shows "handleCommand env command tr = (0, tr)"
  using assms by (simp add: handleCommand_default ExitStatusOK_def)

theorem unknown_command_is_silent_noop_witness:
  "''restart'' \<notin> {''start-service'', ''print-version'', ''print-help'',
                   ''print-config'', ''print-env''}
   \<and> handleCommand \<lparr>server_start_ok = False, marshal_ok = False\<rparr> ''restart'' [] = (0, [])"
  using unknown_command_is_silent_noop
          [of "''restart''" "\<lparr>server_start_ok = False, marshal_ok = False\<rparr>" "[]"]
  by simp

text \<open>
  Claim C10.  The help message advertises the commands \<open>help\<close> and
  \<open>print-version-info\<close>, but neither is a case of \<open>handleCommand\<close>: for both tokens the
  dispatch falls through to the final return, giving status 0 with no action run, so
  neither the help text nor the version is printed.
\<close>

theorem advertised_but_undispatched_commands:
  "''help'' \<in> set advertised_commands
   \<and> ''print-version-info'' \<in> set advertised_commands
   \<and> handleCommand env ''help'' tr = (0, tr)
   \<and> handleCommand env ''print-version-info'' tr = (0, tr)
   \<and> PrintHelp \<notin> set (snd (handleCommand env ''help'' []))
   \<and> PrintVersionInfo \<notin> set (snd (handleCommand env ''print-version-info'' []))"
  by (simp add: advertised_commands_def advertised_command_def helpMessageTemplate_commands_def
      handleCommand_def ExitStatusOK_def)

theorem advertised_but_undispatched_commands_witness:
  "handleCommand \<lparr>server_start_ok = True, marshal_ok = True\<rparr> ''help'' [] = (0, [])
   \<and> handleCommand \<lparr>server_start_ok = True, marshal_ok = True\<rparr> ''print-version-info'' []
       = (0, [])"
  using advertised_but_undispatched_commands
          [of "\<lparr>server_start_ok = True, marshal_ok = True\<rparr>" "[]"]
  by simp

lemma is_ascii_trimSpaceASCII: "is_ascii s \<Longrightarrow> is_ascii (trimSpaceASCII s)"
  by (auto simp: is_ascii_def trimSpaceASCII_def list_all_iff dest!: set_dropWhileD)

lemma selected_command_ascii:
  "is_ascii a \<Longrightarrow> selected_command (a # rest) = Returns (toLowerASCII (trimSpaceASCII a))"
  by (simp add: selected_command_def TrimSpace_def ToLower_def is_ascii_trimSpaceASCII)

lemma selected_command_not_ascii:
  "\<not> is_ascii a \<Longrightarrow> selected_command (a # rest) = NotModelled"
  by (simp add: selected_command_def TrimSpace_def)

lemma selected_command_example:
  "selected_command [''  Start-SERVICE '', ''print-env''] = Returns ''start-service''"
  by code_simp

lemma example_is_ascii: "is_ascii ''  Start-SERVICE ''"
  by code_simp

text \<open>
  Claim C7, as the code has it.  A run whose configuration fails to load ends in a panic
  before anything is dispatched (the process status is then 2, not 1).  In every run that
  reaches the dispatch, the command is \<open>start-service\<close> when there is no positional
  argument; when the first positional argument consists of ASCII bytes, the command is
  that argument with its leading and trailing ASCII white space removed and its letters
  \<open>A\<close>..\<open>Z\<close> lower-cased (a first argument with other bytes is outside the model, and
  no statement is made about it).  Each of the five recognised tokens runs its own action
  and no other.  The exit code is 1 when \<open>start-service\<close> fails to start the server and
  0 when the selected action succeeds.
\<close>

theorem cli_dispatch:
  "(load_error run \<longrightarrow> main env run = Returns (Panic, []))
   \<and> (reaches_dispatch run \<longrightarrow>
        (args run = [] \<longrightarrow> selected_command (args run) = Returns ''start-service'')
      \<and> (\<forall>a rest. args run = a # rest \<and> is_ascii a \<longrightarrow>
            selected_command (args run) = Returns (toLowerASCII (trimSpaceASCII a)))
      \<and> (selected_command (args run) = Returns ''start-service'' \<longrightarrow>
            main env run
              = Returns (Exit (if server_start_ok env then 0 else 1), [StartServer]))
      \<and> (selected_command (args run) = Returns ''print-version'' \<longrightarrow>
            main env run = Returns (Exit 0, [PrintVersionInfo]))
      \<and> (selected_command (args run) = Returns ''print-help'' \<longrightarrow>
            main env run = Returns (Exit 0, [PrintHelp]))
      \<and> (selected_command (args run) = Returns ''print-config'' \<longrightarrow>
            (\<exists>status. main env run = Returns (Exit status, [PrintConfig])
               \<and> (marshal_ok env \<longrightarrow> status = 0)))
      \<and> (selected_command (args run) = Returns ''print-env'' \<longrightarrow>
            main env run = Returns (Exit 0, [PrintEnv])))"
proof -
  have "main env run = Returns (Panic, [])" if "load_error run"
    using that by (simp add: main_def)
  moreover have "selected_command (args run) = Returns ''start-service''" if "args run = []"
    using that by (simp add: selected_command_def)
  moreover have "selected_command (args run) = Returns (toLowerASCII (trimSpaceASCII a))"
    if "args run = a # rest \<and> is_ascii a" for a rest
    using that by (simp add: selected_command_ascii)
  moreover have "main env run
      = Returns (Exit (if server_start_ok env then 0 else 1), [StartServer])"
    if "reaches_dispatch run" "selected_command (args run) = Returns ''start-service''"
    using that
    by (simp add: main_def reaches_dispatch_def handleCommand_def startServer_def
        ExitStatusOK_def ExitStatusServerError_def)
  moreover have "main env run = Returns (Exit 0, [PrintVersionInfo])"
    if "reaches_dispatch run" "selected_command (args run) = Returns ''print-version''"
    using that
    by (simp add: main_def reaches_dispatch_def handleCommand_def printVersionInfo_def
        ExitStatusOK_def)
  moreover have "main env run = Returns (Exit 0, [PrintHelp])"
    if "reaches_dispatch run" "selected_command (args run) = Returns ''print-help''"
    using that
    by (simp add: main_def reaches_dispatch_def handleCommand_def printHelp_def ExitStatusOK_def)
  moreover have "\<exists>status. main env run = Returns (Exit status, [PrintConfig])
      \<and> (marshal_ok env \<longrightarrow> status = 0)"
    if "reaches_dispatch run" "selected_command (args run) = Returns ''print-config''"
    using that
    by (simp add: main_def reaches_dispatch_def handleCommand_def printConfig_def
        ExitStatusOK_def)
  moreover have "main env run = Returns (Exit 0, [PrintEnv])"
    if "reaches_dispatch run" "selected_command (args run) = Returns ''print-env''"
    using that
    by (simp add: main_def reaches_dispatch_def handleCommand_def printEnv_def ExitStatusOK_def)
  ultimately show ?thesis
    by blast
qed

theorem cli_dispatch_witness:
  "reaches_dispatch \<lparr>load_error = False, flags_ok = True, showHelp = False,
                      showVersion = False, args = [''  Start-SERVICE '', ''print-env'']\<rparr>
   \<and> is_ascii ''  Start-SERVICE ''
   \<and> selected_command [''  Start-SERVICE '', ''print-env''] = Returns ''start-service''
   \<and> main \<lparr>server_start_ok = False, marshal_ok = True\<rparr>
        \<lparr>load_error = False, flags_ok = True, showHelp = False,
         showVersion = False, args = [''  Start-SERVICE '', ''print-env'']\<rparr>
       = Returns (Exit 1, [StartServer])"
  using cli_dispatch
          [of "\<lparr>load_error = False, flags_ok = True, showHelp = False,
                showVersion = False, args = [''  Start-SERVICE '', ''print-env'']\<rparr>"
              "\<lparr>server_start_ok = False, marshal_ok = True\<rparr>"]
  by (simp add: reaches_dispatch_def selected_command_example example_is_ascii)

text \<open>
  Claim C7 as stated fails where the configuration cannot be loaded: \<open>main\<close> panics,
  and the process ends with the runtime's status 2 instead of the exit code 1.  It also
  fails for a first argument that is no command, which selects no action at all.
\<close>

theorem config_load_failure_counterexample:
  "main \<lparr>server_start_ok = True, marshal_ok = True\<rparr>
        \<lparr>load_error = True, flags_ok = True, showHelp = False,
         showVersion = False, args = []\<rparr> = Returns (Panic, [])
   \<and> exit_code Panic \<noteq> 1
   \<and> main \<lparr>server_start_ok = True, marshal_ok = True\<rparr>
         \<lparr>load_error = False, flags_ok = True, showHelp = False,
          showVersion = False, args = [''restart'']\<rparr> = Returns (Exit 0, [])"
proof -
  have "selected_command [''restart''] = Returns ''restart''"
    by code_simp
  then show ?thesis
    by (simp add: main_def handleCommand_def ExitStatusOK_def)
qed

end
